theory Spec2Isabelle
  imports Complex_Main
begin

text \<open>
  The source file holds two modules: \<open>ol/webgl/Fragment\<close>, a shader class that only
  reports its type, and \<open>ol/source/WMTS\<close>, the WMTS tile source with the resolver
  \<open>optionsFromCapabilities\<close>. This theory embeds the second one.
\<close>

section \<open>JavaScript values, strings and objects\<close>

text \<open>
  The source is JavaScript. The values that flow through the WMTS source are strings,
  integral numbers (tile columns and rows) and \<open>undefined\<close>. Strings are character
  lists; every character class used by the source's regular expressions is ASCII.
  A number is an \<open>int\<close>: tile coordinates are integers, and \<open>-y - 1\<close> is exact on them.
  Two more values are only met as inherited properties of an object: a built-in function,
  given by its name, and the object \<open>Object.prototype\<close>.
\<close>

datatype jsval = Undefined | Str string | Num int | Native string | ObjectPrototype

text \<open>Reading a property of \<open>null\<close> or \<open>undefined\<close>, or calling a method on it,
  throws a \<open>TypeError\<close>; every exception of the source is of this kind. A computation
  that may throw yields \<open>Inl\<close> of the error or \<open>Inr\<close> of its value.\<close>

datatype error = TypeError

definition digitChar :: "nat \<Rightarrow> char" where
  "digitChar d = ''0123456789'' ! d"

function showNat :: "int \<Rightarrow> string" where
  "showNat n =
     (if n < 10 then [digitChar (nat n)] else showNat (n div 10) @ [digitChar (nat (n mod 10))])"
  by pat_completeness auto
termination
  by (relation "measure nat") auto

definition showInt :: "int \<Rightarrow> string" where
  "showInt i = (if i < 0 then CHR ''-'' # showNat (- i) else showNat i)"

text \<open>String conversion, as done by \<open>+\<close> on a string and by \<open>String.prototype.replace\<close>
  on the value its callback returns. The text of a built-in function is left to the
  implementation by the language; the model prints it as V8 does.\<close>

fun toStr :: "jsval \<Rightarrow> string" where
  "toStr Undefined = ''undefined''"
| "toStr (Str s) = s"
| "toStr (Num n) = showInt n"
| "toStr (Native name) = ''function '' @ name @ ''() { [native code] }''"
| "toStr ObjectPrototype = ''[object Object]''"

text \<open>The class \<open>\w\<close> of the regular expressions, and \<open>toLowerCase\<close> on it.\<close>

definition isWord :: "char \<Rightarrow> bool" where
  "isWord c = (c \<in> set ''abcdefghijklmnopqrstuvwxyzABCDEFGHIJKLMNOPQRSTUVWXYZ0123456789_'')"

definition lowerChar :: "char \<Rightarrow> char" where
  "lowerChar c =
     (case map_of (zip ''ABCDEFGHIJKLMNOPQRSTUVWXYZ'' ''abcdefghijklmnopqrstuvwxyz'') c of
        None \<Rightarrow> c | Some d \<Rightarrow> d)"

definition toLowerCase :: "string \<Rightarrow> string" where
  "toLowerCase s = map lowerChar s"

text \<open>\<open>Array.prototype.join\<close> on an array of strings.\<close>

fun join :: "string \<Rightarrow> string list \<Rightarrow> string" where
  "join sep [] = []"
| "join sep [x] = x"
| "join sep (x # y # ys) = x @ sep @ join sep (y # ys)"

text \<open>
  A plain object is the list of its own properties in creation order; a well-formed object
  has each key once. Every object of the source is an object literal or is used as one, so
  its prototype is \<open>Object.prototype\<close>, whose properties it inherits: \<open>k in o\<close>
  (\<open>hasProp\<close>) and \<open>o[k]\<close> (\<open>getProp\<close>) look at the own properties first and at
  the inherited ones then, while \<open>hasOwnProperty\<close> and the enumeration see the own ones
  only. An assignment to the key \<open>__proto__\<close> would set the prototype instead of a
  property; no object of the model has that key as its own.
\<close>

type_synonym obj = "(string \<times> jsval) list"

definition inherited :: "string \<Rightarrow> jsval option" where
  "inherited k =
     (if k = ''constructor'' then Some (Native ''Object'')
      else if k = ''__proto__'' then Some ObjectPrototype
      else if k \<in> set [''hasOwnProperty'', ''isPrototypeOf'', ''propertyIsEnumerable'',
                        ''toLocaleString'', ''toString'', ''valueOf'', ''__defineGetter__'',
                        ''__defineSetter__'', ''__lookupGetter__'', ''__lookupSetter__'']
      then Some (Native k)
      else None)"

definition hasOwnProperty :: "string \<Rightarrow> obj \<Rightarrow> bool" where
  "hasOwnProperty k ob = (k \<in> fst ` set ob)"

definition hasProp :: "string \<Rightarrow> obj \<Rightarrow> bool" where
  "hasProp k ob = (case inherited k of None \<Rightarrow> hasOwnProperty k ob | Some v \<Rightarrow> True)"

definition getProp :: "obj \<Rightarrow> string \<Rightarrow> jsval" where
  "getProp ob k =
     (case map_of ob k of
        Some v \<Rightarrow> v
      | None \<Rightarrow> (case inherited k of Some v \<Rightarrow> v | None \<Rightarrow> Undefined))"

text \<open>\<open>o[k] = v\<close>: an existing property keeps its place, a new one is added last.\<close>

fun setProp :: "string \<Rightarrow> jsval \<Rightarrow> obj \<Rightarrow> obj" where
  "setProp k v [] = [(k, v)]"
| "setProp k v (p # ps) = (if fst p = k then (k, v) # ps else p # setProp k v ps)"

text \<open>
  Enumeration (\<open>for (key in o)\<close>, \<open>Object.keys\<close>): the keys that are array indices come
  first, in ascending numeric order, then the other keys in creation order.
\<close>

definition isDigit :: "char \<Rightarrow> bool" where
  "isDigit c = (c \<in> set ''0123456789'')"

definition digitVal :: "char \<Rightarrow> int" where
  "digitVal c = of_char c - 48"

definition intOfDigits :: "string \<Rightarrow> int" where
  "intOfDigits s = foldl (\<lambda>n c. 10 * n + digitVal c) 0 s"

definition isArrayIndex :: "string \<Rightarrow> bool" where
  "isArrayIndex k =
     (k \<noteq> [] \<and> list_all isDigit k \<and> (k = ''0'' \<or> hd k \<noteq> CHR ''0'') \<and>
      intOfDigits k < 4294967295)"

definition forIn :: "obj \<Rightarrow> (string \<times> jsval) list" where
  "forIn ob =
     sort_key (\<lambda>p. intOfDigits (fst p)) (filter (\<lambda>p. isArrayIndex (fst p)) ob) @
     filter (\<lambda>p. \<not> isArrayIndex (fst p)) ob"

text \<open>Modelled from the spec: \<open>assign\<close> of \<open>obj.js\<close>, which is not in the source
  excerpt. It merges the entries of the second object into the first (overwriting
  existing keys, adding new ones, never removing keys).\<close>

definition assign :: "obj \<Rightarrow> obj \<Rightarrow> obj" where
  "assign target source = foldl (\<lambda>t p. setProp (fst p) (snd p) t) target (forIn source)"

section \<open>Placeholder substitution\<close>

text \<open>
  \<open>s.replace(/\{(\w+?)\}/g, f)\<close>: scanning from the left, every \<open>{\<close> followed by one
  or more word characters and a \<open>}\<close> is a match; the callback receives the whole match
  and the name, its result replaces the match and is not scanned again. As neither brace is a
  word character, the lazy \<open>\w+?\<close> can only match the whole run of word characters.
\<close>

function replacePlaceholders :: "(string \<Rightarrow> string \<Rightarrow> string) \<Rightarrow> string \<Rightarrow> string" where
  "replacePlaceholders f [] = []"
| "replacePlaceholders f (c # cs) =
     (if c = CHR ''{'' \<and> takeWhile isWord cs \<noteq> [] \<and>
         (case dropWhile isWord cs of [] \<Rightarrow> False | d # _ \<Rightarrow> d = CHR ''}'')
      then f (c # takeWhile isWord cs @ ''}'') (takeWhile isWord cs)
             @ replacePlaceholders f (tl (dropWhile isWord cs))
      else c # replacePlaceholders f cs)"
  by pat_completeness auto
termination
proof (relation "measure (\<lambda>(f, s). length s)", goal_cases)
  case 1
  show ?case by simp
next
  case (2 f c cs)
  have "length (tl (dropWhile isWord cs)) < Suc (length cs)"
    using length_dropWhile_le [of isWord cs] by simp
  then show ?case by simp
next
  case (3 f c cs)
  show ?case by simp
qed

section \<open>The WMTS tile source\<close>

text \<open>Modelled from the spec: the two members of \<open>WMTSRequestEncoding\<close>, whose file is
  not in the source excerpt; the spec gives them as \<open>"KVP"\<close> and \<open>"REST"\<close>.\<close>

definition KVP :: string where
  "KVP = ''KVP''"

definition REST :: string where
  "REST = ''REST''"

type_synonym tileCoord = "int \<times> int \<times> int"

text \<open>
  A tile URL function takes the tile coordinate (\<open>None\<close> when it is absent), the pixel
  ratio and the projection. The functions compiled by a WMTS source also read the source's
  dimensions object, which \<open>updateDimensions\<close> mutates in place: the model passes the
  current content of that object as the first argument. A call throws (\<open>Inl\<close>), or
  returns \<open>undefined\<close> (\<open>Inr None\<close>) or a URL.
\<close>

type_synonym 'p tileUrlFunction =
  "obj \<Rightarrow> tileCoord option \<Rightarrow> real \<Rightarrow> 'p \<Rightarrow> error + string option"

text \<open>Modelled from the spec: \<open>nullTileUrlFunction\<close> of \<open>tileurlfunction.js\<close>, which
  is not in the source excerpt: the addressing function that yields no URL for any tile.\<close>

definition nullTileUrlFunction :: "'p tileUrlFunction" where
  "nullTileUrlFunction dimensions tileCoord pixelRatio projection = Inr None"

text \<open>
  The helpers of other modules that the constructor calls are parameters of the model:
  \<open>appendParams\<close> (\<open>uri.js\<close>), \<open>expandUrl\<close> and \<open>createFromTileUrlFunctions\<close>
  (\<open>tileurlfunction.js\<close>).
\<close>

record 'p helpers =
  appendParams :: "string \<Rightarrow> obj \<Rightarrow> string"
  expandUrl :: "string \<Rightarrow> string list"
  createFromTileUrlFunctions :: "'p tileUrlFunction list \<Rightarrow> 'p tileUrlFunction"

text \<open>The options of the constructor that the source reads itself. The constructor takes
  \<open>options.tileGrid\<close> as it is, without a test or a default: \<open>opt_tileGrid\<close> is
  \<open>None\<close> when the options have no tile grid, and the \<open>getMatrixId\<close> method of the
  tile grid otherwise.\<close>

record wmtsOptions =
  opt_version :: "string option"
  opt_format :: "string option"
  opt_dimensions :: "obj option"
  opt_layer :: string
  opt_matrixSet :: string
  opt_style :: string
  opt_urls :: "string list option"
  opt_url :: "string option"
  opt_requestEncoding :: "string option"
  opt_tileGrid :: "(int \<Rightarrow> jsval) option"

text \<open>The fields of a source; \<open>wmts_version\<close> is \<open>this.version_\<close>, and so on. A
  name cannot end in an underscore here: \<open>createFromWMTSTemplate\<close> and
  \<open>getKeyForDimensions\<close> below are \<open>createFromWMTSTemplate_\<close> and
  \<open>getKeyForDimensions_\<close> of the source.\<close>

record 'p wmts =
  wmts_version :: string
  wmts_format :: string
  wmts_dimensions :: obj
  wmts_layer :: string
  wmts_matrixSet :: string
  wmts_style :: string
  wmts_requestEncoding :: string
  wmts_urls :: "string list option"
  wmts_tileUrlFunction :: "'p tileUrlFunction"
  wmts_key :: string

text \<open>The per-call context of the compiled function: matrix identifier, column and the
  protocol row, with the current dimensions assigned over them.\<close>

definition localContext :: "(int \<Rightarrow> jsval) \<Rightarrow> obj \<Rightarrow> tileCoord \<Rightarrow> obj" where
  "localContext getMatrixId dimensions tileCoord =
     (case tileCoord of (z, x, y) \<Rightarrow>
        assign [(''TileMatrix'', getMatrixId z), (''TileCol'', Num x), (''TileRow'', Num (- y - 1))]
          dimensions)"

text \<open>The compile-time step of \<open>createFromWMTSTemplate_\<close>.\<close>

definition compileTemplate :: "('p, 'a) helpers_scheme \<Rightarrow> string \<Rightarrow> obj \<Rightarrow> string \<Rightarrow> string" where
  "compileTemplate h requestEncoding context template =
     (if requestEncoding = KVP then appendParams h template context
      else replacePlaceholders
             (\<lambda>m p. if hasProp (toLowerCase p) context
                     then toStr (getProp context (toLowerCase p)) else m)
             template)"

text \<open>The compiled function. For a present coordinate it first calls
  \<open>tileGrid.getMatrixId\<close>, which throws when the source has no tile grid.\<close>

definition createFromWMTSTemplate ::
    "('p, 'a) helpers_scheme \<Rightarrow> string \<Rightarrow> obj \<Rightarrow> (int \<Rightarrow> jsval) option \<Rightarrow> string \<Rightarrow>
     'p tileUrlFunction" where
  "createFromWMTSTemplate h requestEncoding context tileGrid template =
     (let template' = compileTemplate h requestEncoding context template
      in (\<lambda>dimensions tileCoord pixelRatio projection.
            case tileCoord of
              None \<Rightarrow> Inr None
            | Some tc \<Rightarrow>
                (case tileGrid of
                   None \<Rightarrow> Inl TypeError
                 | Some getMatrixId \<Rightarrow>
                     (let lc = localContext getMatrixId dimensions tc;
                          url = template';
                          url = (if requestEncoding = KVP then appendParams h url lc
                                 else replacePlaceholders (\<lambda>m p. toStr (getProp lc p)) url)
                      in Inr (Some url)))))"

text \<open>The static context built by the constructor.\<close>

definition staticContext :: "string \<Rightarrow> string \<Rightarrow> string \<Rightarrow> string \<Rightarrow> string \<Rightarrow> string \<Rightarrow> obj" where
  "staticContext requestEncoding layer style matrixSet version format =
     (let context = [(''layer'', Str layer), (''style'', Str style), (''tilematrixset'', Str matrixSet)]
      in if requestEncoding = KVP
         then assign context
                [(''Service'', Str ''WMTS''), (''Request'', Str ''GetTile''),
                 (''Version'', Str version), (''Format'', Str format)]
         else context)"

definition getKeyForDimensions :: "('p, 'a) wmts_scheme \<Rightarrow> string" where
  "getKeyForDimensions this =
     join ''/'' (map (\<lambda>p. fst p @ ''-'' @ toStr (snd p)) (forIn (wmts_dimensions this)))"

text \<open>Modelled from the spec: \<open>setKey\<close> of the base tile source, which is not in the
  source excerpt: it publishes the new key.\<close>

definition setKey :: "string \<Rightarrow> ('p, 'a) wmts_scheme \<Rightarrow> ('p, 'a) wmts_scheme" where
  "setKey key this = this\<lparr>wmts_key := key\<rparr>"

definition WMTS :: "'p helpers \<Rightarrow> wmtsOptions \<Rightarrow> 'p wmts" where
  "WMTS h options =
     (let version = (case opt_version options of Some v \<Rightarrow> v | None \<Rightarrow> ''1.0.0'');
          format = (case opt_format options of Some f \<Rightarrow> f | None \<Rightarrow> ''image/jpeg'');
          dimensions = (case opt_dimensions options of Some d \<Rightarrow> d | None \<Rightarrow> []);
          urls = (case opt_urls options of
                    Some us \<Rightarrow> Some us
                  | None \<Rightarrow> (case opt_url options of
                               Some u \<Rightarrow> Some (expandUrl h u)
                             | None \<Rightarrow> None));
          requestEncoding = (case opt_requestEncoding options of Some e \<Rightarrow> e | None \<Rightarrow> KVP);
          context = staticContext requestEncoding (opt_layer options) (opt_style options)
                      (opt_matrixSet options) version format;
          tileUrlFunction =
            (case urls of
               Some us \<Rightarrow>
                 if length us > 0
                 then createFromTileUrlFunctions h
                        (map (createFromWMTSTemplate h requestEncoding context
                                (opt_tileGrid options)) us)
                 else nullTileUrlFunction
             | None \<Rightarrow> nullTileUrlFunction);
          this = \<lparr> wmts_version = version, wmts_format = format, wmts_dimensions = dimensions,
                   wmts_layer = opt_layer options, wmts_matrixSet = opt_matrixSet options,
                   wmts_style = opt_style options, wmts_requestEncoding = requestEncoding,
                   wmts_urls = urls, wmts_tileUrlFunction = tileUrlFunction, wmts_key = [] \<rparr>
      in setKey (getKeyForDimensions this) this)"

definition updateDimensions :: "obj \<Rightarrow> ('p, 'a) wmts_scheme \<Rightarrow> ('p, 'a) wmts_scheme" where
  "updateDimensions dimensions this =
     (let this = this\<lparr>wmts_dimensions := assign (wmts_dimensions this) dimensions\<rparr>
      in setKey (getKeyForDimensions this) this)"

text \<open>A request for a tile URL of a source: its tile URL function, reading the source's
  current dimensions.\<close>

definition tileUrl ::
    "('p, 'a) wmts_scheme \<Rightarrow> tileCoord option \<Rightarrow> real \<Rightarrow> 'p \<Rightarrow> error + string option" where
  "tileUrl this tileCoord pixelRatio projection =
     wmts_tileUrlFunction this (wmts_dimensions this) tileCoord pixelRatio projection"

section \<open>Generating source options from a capabilities document\<close>

subsection \<open>The capabilities document and the configuration\<close>

text \<open>
  The parsed capabilities document is a tree of objects and arrays; the records below have
  the properties that \<open>optionsFromCapabilities\<close> reads, under the names of the source
  prefixed by the kind of object. A property that the source tests for presence is an
  \<open>option\<close>. Coordinates are finite numbers, compared exactly.
\<close>

type_synonym extent = "real \<times> real \<times> real \<times> real"

record 'l tileMatrixSetLink =
  link_TileMatrixSet :: string
  link_TileMatrixSetLimits :: "'l option"

record tileMatrixSet =
  tms_Identifier :: string
  tms_SupportedCRS :: "string option"

record style =
  style_Identifier :: string
  style_Title :: "string option"
  style_isDefault :: bool

record dimension =
  dim_Identifier :: string
  dim_Default :: "string option"
  dim_Value :: "string list"

record resourceURL =
  res_resourceType :: string
  res_format :: string
  res_template :: string

record 'l layer =
  layer_Identifier :: string
  layer_TileMatrixSetLink :: "'l tileMatrixSetLink list"
  layer_Format :: "string list"
  layer_Style :: "style list"
  layer_Dimension :: "dimension list option"
  layer_ResourceURL :: "resourceURL list option"
  layer_WGS84BoundingBox :: "extent option"

text \<open>A constraint of a binding, with the list \<open>AllowedValues.Value\<close>; a binding of
  \<open>OperationsMetadata.GetTile.DCP.HTTP.Get\<close>.\<close>

record constraint =
  con_name :: string
  con_AllowedValues :: "string list"

record getBinding =
  get_Constraint :: "constraint list option"
  get_href :: string

record 'l capabilities =
  cap_Layer :: "'l layer list"
  cap_TileMatrixSet :: "tileMatrixSet list"
  cap_GetTile :: "getBinding list option"

record config =
  cfg_layer :: string
  cfg_matrixSet :: "string option"
  cfg_projection :: "string option"
  cfg_requestEncoding :: "string option"
  cfg_style :: "string option"
  cfg_format :: "string option"
  cfg_crossOrigin :: "string option"

text \<open>The object that \<open>optionsFromCapabilities\<close> returns.\<close>

record ('p, 'g) sourceOptions =
  out_urls :: "string list"
  out_layer :: string
  out_matrixSet :: string
  out_format :: "string option"
  out_projection :: "'p option"
  out_requestEncoding :: "string option"
  out_tileGrid :: 'g
  out_style :: string
  out_dimensions :: obj
  out_wrapX :: "bool option"
  out_crossOrigin :: "string option"

text \<open>
  The functions of other modules are parameters: \<open>get\<close> and \<open>equivalent\<close> of
  \<open>proj.js\<close>, the \<open>getExtent\<close> method of a projection, \<open>transformExtent\<close>,
  \<open>containsExtent\<close> of \<open>extent.js\<close> and the tile grid builder
  \<open>createFromCapabilitiesMatrixSet\<close>. \<open>getProjection\<close> yields \<open>None\<close> for
  \<open>null\<close>, \<open>getExtent\<close> for a projection without extent.
\<close>

record ('p, 'g, 'l) services =
  getProjection :: "string \<Rightarrow> 'p option"
  equivalent :: "'p \<Rightarrow> 'p \<Rightarrow> bool"
  getExtent :: "'p \<Rightarrow> extent option"
  transformExtent :: "extent \<Rightarrow> string \<Rightarrow> 'p \<Rightarrow> extent"
  containsExtent :: "extent \<Rightarrow> extent \<Rightarrow> bool"
  createFromCapabilitiesMatrixSet :: "tileMatrixSet \<Rightarrow> extent option \<Rightarrow> 'l option \<Rightarrow> 'g"

text \<open>Sequencing of computations that may throw.\<close>

definition bindE :: "error + 'a \<Rightarrow> ('a \<Rightarrow> error + 'b) \<Rightarrow> error + 'b" where
  "bindE m f = (case m of Inl e \<Rightarrow> Inl e | Inr x \<Rightarrow> f x)"

subsection \<open>Array helpers\<close>

text \<open>Modelled from the spec: \<open>find\<close>, \<open>findIndex\<close> and \<open>includes\<close> of
  \<open>array.js\<close>, which is not in the source excerpt. \<open>find\<close> is the first element that
  satisfies the callback, \<open>null\<close> (here \<open>None\<close>) without one, and is \<open>List.find\<close>;
  \<open>findIndex\<close> is the index of that element, \<open>-1\<close> without one; \<open>includes\<close>
  (here \<open>includes_arr\<close>) is membership. \<open>findIndexE\<close> is \<open>findIndex\<close> for a callback that may throw: elements
  after the first hit are not visited.\<close>

fun findIndex :: "('a \<Rightarrow> bool) \<Rightarrow> 'a list \<Rightarrow> int" where
  "findIndex P [] = - 1"
| "findIndex P (x # xs) =
     (if P x then 0 else (let i = findIndex P xs in if i < 0 then - 1 else i + 1))"

fun findIndexE :: "('a \<Rightarrow> error + bool) \<Rightarrow> 'a list \<Rightarrow> error + int" where
  "findIndexE P [] = Inr (- 1)"
| "findIndexE P (x # xs) =
     bindE (P x) (\<lambda>b. if b then Inr 0
                        else bindE (findIndexE P xs) (\<lambda>i. Inr (if i < 0 then - 1 else i + 1)))"

definition includes_arr :: "'a list \<Rightarrow> 'a \<Rightarrow> bool" where
  "includes_arr arr x = (x \<in> set arr)"

text \<open>\<open>arr[i]\<close>: \<open>None\<close> stands for \<open>undefined\<close>.\<close>

definition elementAt :: "'a list \<Rightarrow> int \<Rightarrow> 'a option" where
  "elementAt arr i = (if 0 \<le> i \<and> i < int (length arr) then Some (arr ! nat i) else None)"

subsection \<open>Coordinate reference system codes\<close>

text \<open>
  \<open>code.replace(/urn:ogc:def:crs:(\w+):(.*:)?(\w+)$/, '$1:$3')\<close>. A match starts with the
  literal prefix, then the whole run of word characters up to a colon (group 1), and runs
  to the end of the string, whose last colon-free segment must be a non-empty word (group
  3); \<open>.\<close> matches no line terminator. The leftmost start that matches is replaced.
\<close>

definition isLineTerminator :: "char \<Rightarrow> bool" where
  "isLineTerminator c = (c = CHR 0x0A \<or> c = CHR 0x0D)"

definition urnPrefix :: string where
  "urnPrefix = ''urn:ogc:def:crs:''"

definition matchUrnAt :: "string \<Rightarrow> string option" where
  "matchUrnAt s =
     (if take (length urnPrefix) s = urnPrefix
      then (let r = drop (length urnPrefix) s;
                g1 = takeWhile isWord r;
                r1 = dropWhile isWord r
            in (case r1 of
                  [] \<Rightarrow> None
                | d # rest \<Rightarrow>
                    (let g3 = rev (takeWhile (\<lambda>c. c \<noteq> CHR '':'') (rev rest));
                         skipped = take (length rest - length g3) rest
                     in if g1 \<noteq> [] \<and> d = CHR '':'' \<and> g3 \<noteq> [] \<and> list_all isWord g3 \<and>
                           \<not> list_ex isLineTerminator skipped
                        then Some (g1 @ '':'' @ g3) else None)))
      else None)"

fun replaceUrn :: "string \<Rightarrow> string" where
  "replaceUrn [] = []"
| "replaceUrn (c # cs) =
     (case matchUrnAt (c # cs) of Some r \<Rightarrow> r | None \<Rightarrow> c # replaceUrn cs)"

text \<open>\<open>getProjection(code.replace(...)) || getProjection(code)\<close>\<close>

definition crsProjection :: "('p, 'g, 'l, 'a) services_scheme \<Rightarrow> string \<Rightarrow> 'p option" where
  "crsProjection sv code =
     (case getProjection sv (replaceUrn code) of
        Some p \<Rightarrow> Some p
      | None \<Rightarrow> getProjection sv code)"

subsection \<open>The steps of the resolver\<close>

text \<open>The callback of the search by projection (lines 352 to 365): it throws when the
  link names a matrix set that the document does not have, or one without a
  \<open>SupportedCRS\<close>.\<close>

definition linkMatchesProjection ::
    "('p, 'g, 'l, 'a) services_scheme \<Rightarrow> tileMatrixSet list \<Rightarrow> string \<Rightarrow> 'l tileMatrixSetLink \<Rightarrow> error + bool" where
  "linkMatchesProjection sv tileMatrixSets configProjection elt =
     (case find (\<lambda>el. tms_Identifier el = link_TileMatrixSet elt) tileMatrixSets of
        None \<Rightarrow> Inl TypeError
      | Some tileMatrixSet \<Rightarrow>
          (case tms_SupportedCRS tileMatrixSet of
             None \<Rightarrow> Inl TypeError
           | Some supportedCRS \<Rightarrow>
               (let proj1 = crsProjection sv supportedCRS;
                    proj2 = getProjection sv configProjection
                in (case proj1 of
                      Some p1 \<Rightarrow>
                        (case proj2 of
                           Some p2 \<Rightarrow> Inr (equivalent sv p1 p2)
                         | None \<Rightarrow> Inr (supportedCRS = configProjection))
                    | None \<Rightarrow> Inr (supportedCRS = configProjection)))))"

text \<open>The index of the selected link (lines 348 to 377).\<close>

definition selectLinkIndex ::
    "('p, 'g, 'l, 'a) services_scheme \<Rightarrow> tileMatrixSet list \<Rightarrow> 'l layer \<Rightarrow> config \<Rightarrow> error + int" where
  "selectLinkIndex sv tileMatrixSets l config =
     bindE
       (if length (layer_TileMatrixSetLink l) > 1
        then (case cfg_projection config of
                Some configProjection \<Rightarrow>
                  findIndexE (linkMatchesProjection sv tileMatrixSets configProjection)
                    (layer_TileMatrixSetLink l)
              | None \<Rightarrow>
                  Inr (findIndex (\<lambda>elt. Some (link_TileMatrixSet elt) = cfg_matrixSet config)
                         (layer_TileMatrixSetLink l)))
        else Inr 0)
       (\<lambda>idx. Inr (if idx < 0 then 0 else idx))"

text \<open>The index of the selected style (lines 387 to 396).\<close>

definition selectStyleIndex :: "'l layer \<Rightarrow> config \<Rightarrow> int" where
  "selectStyleIndex l config =
     (let idx = findIndex
                  (\<lambda>elt. case cfg_style config of
                            Some s \<Rightarrow> style_Title elt = Some s
                          | None \<Rightarrow> style_isDefault elt)
                  (layer_Style l)
      in if idx < 0 then 0 else idx)"

text \<open>The initial dimensions (lines 399 to 409).\<close>

definition initialDimensions :: "'l layer \<Rightarrow> obj" where
  "initialDimensions l =
     (case layer_Dimension l of
        None \<Rightarrow> []
      | Some ds \<Rightarrow>
          foldl (\<lambda>dimensions elt.
                   setProp (dim_Identifier elt)
                     (case dim_Default elt of
                        Some v \<Rightarrow> Str v
                      | None \<Rightarrow> (case dim_Value elt of [] \<Rightarrow> Undefined | v # _ \<Rightarrow> Str v))
                     dimensions)
            [] ds)"

text \<open>The projection derived from the code of the matrix set (lines 416 to 421), and the
  resolved projection (lines 422 to 429).\<close>

definition derivedProjection :: "('p, 'g, 'l, 'a) services_scheme \<Rightarrow> tileMatrixSet \<Rightarrow> 'p option" where
  "derivedProjection sv matrixSetObj =
     (case tms_SupportedCRS matrixSetObj of
        None \<Rightarrow> None
      | Some code \<Rightarrow> if code \<noteq> [] then crsProjection sv code else None)"

definition resolveProjection ::
    "('p, 'g, 'l, 'a) services_scheme \<Rightarrow> tileMatrixSet \<Rightarrow> config \<Rightarrow> 'p option" where
  "resolveProjection sv matrixSetObj config =
     (let projection = derivedProjection sv matrixSetObj
      in (case cfg_projection config of
            None \<Rightarrow> projection
          | Some configProjection \<Rightarrow>
              (case getProjection sv configProjection of
                 None \<Rightarrow> projection
               | Some projConfig \<Rightarrow>
                   (case projection of
                      None \<Rightarrow> Some projConfig
                    | Some p \<Rightarrow> if equivalent sv projConfig p then Some projConfig
                                else projection))))"

text \<open>The extent and the wrap-around flag (lines 431 to 447). Reading the extent of the
  resolved projection throws when no projection was resolved.\<close>

definition extentAndWrapX ::
    "('p, 'g, 'l, 'a) services_scheme \<Rightarrow> 'l layer \<Rightarrow> 'p option \<Rightarrow> error + (extent option \<times> bool option)" where
  "extentAndWrapX sv l projection =
     (case layer_WGS84BoundingBox l of
        None \<Rightarrow> Inr (None, None)
      | Some wgs84BoundingBox \<Rightarrow>
          (case getProjection sv ''EPSG:4326'' of
             None \<Rightarrow> Inl TypeError
           | Some wgs84 \<Rightarrow>
               (case getExtent sv wgs84 of
                  None \<Rightarrow> Inl TypeError
                | Some wgs84ProjectionExtent \<Rightarrow>
                    (let wrapX =
                           (case wgs84BoundingBox of (b0, b1, b2, b3) \<Rightarrow>
                              (case wgs84ProjectionExtent of (e0, e1, e2, e3) \<Rightarrow>
                                 b0 = e0 \<and> b2 = e2))
                     in (case projection of
                           None \<Rightarrow> Inl TypeError
                         | Some p \<Rightarrow>
                             (let extent = transformExtent sv wgs84BoundingBox ''EPSG:4326'' p
                              in (case getExtent sv p of
                                    None \<Rightarrow> Inr (Some extent, Some wrapX)
                                  | Some projectionExtent \<Rightarrow>
                                      if \<not> containsExtent sv projectionExtent extent
                                      then Inr (None, Some wrapX)
                                      else Inr (Some extent, Some wrapX))))))))"

text \<open>
  The loop over the bindings (lines 459 to 481), on the pair of \<open>requestEncoding\<close> and
  \<open>urls\<close>. The encoding is \<open>None\<close> when it is \<open>undefined\<close>, which the first
  element of an empty list of allowed values is. An \<open>href\<close> is true when it is not empty.
\<close>

fun scanGetTile :: "getBinding list \<Rightarrow> string option \<times> string list \<Rightarrow> error + (string option \<times> string list)" where
  "scanGetTile [] (requestEncoding, urls) = Inr (requestEncoding, urls)"
| "scanGetTile (g # gets) (requestEncoding, urls) =
     (case get_Constraint g of
        Some constraints \<Rightarrow>
          (case find (\<lambda>element. con_name element = ''GetEncoding'') constraints of
             None \<Rightarrow> Inl TypeError
           | Some constraint \<Rightarrow>
               (let encodings = con_AllowedValues constraint;
                    requestEncoding =
                      (if requestEncoding = Some []
                       then (case encodings of [] \<Rightarrow> None | e # _ \<Rightarrow> Some e)
                       else requestEncoding)
                in if requestEncoding = Some KVP
                   then scanGetTile gets
                          (requestEncoding,
                           if includes_arr encodings KVP then urls @ [get_href g] else urls)
                   else Inr (requestEncoding, urls)))
      | None \<Rightarrow>
          if get_href g \<noteq> []
          then scanGetTile gets (Some KVP, urls @ [get_href g])
          else scanGetTile gets (requestEncoding, urls))"

text \<open>Request encoding, URLs and format (lines 451 to 491).\<close>

definition negotiate ::
    "'l capabilities \<Rightarrow> 'l layer \<Rightarrow> config \<Rightarrow> string option \<Rightarrow> error + (string option \<times> string list \<times> string option)" where
  "negotiate wmtsCap l config format =
     (let requestEncoding = (case cfg_requestEncoding config of Some e \<Rightarrow> Some e | None \<Rightarrow> Some [])
      in bindE
           (case cap_GetTile wmtsCap of
              Some gets \<Rightarrow> scanGetTile gets (requestEncoding, [])
            | None \<Rightarrow> Inr (requestEncoding, []))
           (\<lambda>(requestEncoding, urls).
              if length urls = 0
              then (case layer_ResourceURL l of
                      None \<Rightarrow> Inl TypeError
                    | Some resources \<Rightarrow>
                        (let tiles = filter (\<lambda>element. res_resourceType element = ''tile'') resources
                         in Inr (Some REST, map res_template tiles,
                                 if tiles = [] then format else Some (res_format (last tiles)))))
              else Inr (requestEncoding, urls, format)))"

subsection \<open>The resolver\<close>

text \<open>Reading a property of \<open>v\<close> throws when \<open>v\<close> is \<open>null\<close> or \<open>undefined\<close>.\<close>

definition propertyOf :: "'a option \<Rightarrow> error + 'a" where
  "propertyOf v = (case v of None \<Rightarrow> Inl TypeError | Some x \<Rightarrow> Inr x)"

text \<open>The format before the negotiation of the URLs (lines 383 to 386).\<close>

definition chooseFormat :: "'l layer \<Rightarrow> config \<Rightarrow> string option" where
  "chooseFormat l config =
     (let format = (case layer_Format l of [] \<Rightarrow> None | f # _ \<Rightarrow> Some f)
      in (case cfg_format config of Some f \<Rightarrow> Some f | None \<Rightarrow> format))"

text \<open>The body of \<open>optionsFromCapabilities\<close> after the layer \<open>l\<close> has been found
  (lines 347 to 505), in the order of the source.\<close>

definition optionsForLayer ::
    "('p, 'g, 'l, 'a) services_scheme \<Rightarrow> 'l capabilities \<Rightarrow> config \<Rightarrow> 'l layer \<Rightarrow> error + ('p, 'g) sourceOptions" where
  "optionsForLayer sv wmtsCap config l =
     bindE (selectLinkIndex sv (cap_TileMatrixSet wmtsCap) l config) (\<lambda>idx.
     bindE (propertyOf (elementAt (layer_TileMatrixSetLink l) idx)) (\<lambda>link.
     bindE (propertyOf (elementAt (layer_Style l) (selectStyleIndex l config))) (\<lambda>st.
     bindE (propertyOf (find (\<lambda>elt. tms_Identifier elt = link_TileMatrixSet link)
                          (cap_TileMatrixSet wmtsCap))) (\<lambda>matrixSetObj.
     bindE (extentAndWrapX sv l (resolveProjection sv matrixSetObj config)) (\<lambda>(extent, wrapX).
     bindE (negotiate wmtsCap l config (chooseFormat l config)) (\<lambda>(requestEncoding, urls, format).
     Inr \<lparr> out_urls = urls,
           out_layer = cfg_layer config,
           out_matrixSet = link_TileMatrixSet link,
           out_format = format,
           out_projection = resolveProjection sv matrixSetObj config,
           out_requestEncoding = requestEncoding,
           out_tileGrid = createFromCapabilitiesMatrixSet sv matrixSetObj extent
                            (link_TileMatrixSetLimits link),
           out_style = style_Identifier st,
           out_dimensions = initialDimensions l,
           out_wrapX = wrapX,
           out_crossOrigin = cfg_crossOrigin config \<rparr>))))))"

text \<open>The result is \<open>Inl\<close> when the source throws, \<open>Inr None\<close> when it returns
  \<open>null\<close>, and \<open>Inr (Some options)\<close> when it returns the options object.\<close>

definition optionsFromCapabilities ::
    "('p, 'g, 'l, 'a) services_scheme \<Rightarrow> 'l capabilities \<Rightarrow> config \<Rightarrow> error + ('p, 'g) sourceOptions option" where
  "optionsFromCapabilities sv wmtsCap config =
     (case find (\<lambda>elt. layer_Identifier elt = cfg_layer config) (cap_Layer wmtsCap) of
        None \<Rightarrow> Inr None
      | Some l \<Rightarrow> bindE (optionsForLayer sv wmtsCap config l) (\<lambda>options. Inr (Some options)))"

section \<open>Vocabulary of the properties\<close>

text \<open>The bindings of the document, none when it has no \<open>GetTile\<close> operation
  metadata.\<close>

definition getTileBindings :: "'l capabilities \<Rightarrow> getBinding list" where
  "getTileBindings wmtsCap = (case cap_GetTile wmtsCap of None \<Rightarrow> [] | Some gets \<Rightarrow> gets)"

text \<open>A binding whose URL is collected under the KVP encoding: its \<open>GetEncoding\<close>
  constraint allows KVP, or it declares no constraint and has an \<open>href\<close>.\<close>

definition bindingAllowsKVP :: "getBinding \<Rightarrow> bool" where
  "bindingAllowsKVP g =
     (case get_Constraint g of
        Some constraints \<Rightarrow>
          (case find (\<lambda>element. con_name element = ''GetEncoding'') constraints of
             Some constraint \<Rightarrow> KVP \<in> set (con_AllowedValues constraint)
           | None \<Rightarrow> False)
      | None \<Rightarrow> get_href g \<noteq> [])"

text \<open>The templates of the resource URLs of a layer whose resource type is \<open>tile\<close>.\<close>

definition tileTemplates :: "'l layer \<Rightarrow> string list" where
  "tileTemplates l =
     (case layer_ResourceURL l of
        None \<Rightarrow> []
      | Some resources \<Rightarrow>
          map res_template (filter (\<lambda>element. res_resourceType element = ''tile'') resources))"







section \<open>Instances for evaluation\<close>

text \<open>
  Small instances of the parameters, on which the model is evaluated: a tile grid whose
  matrix identifiers are the zoom levels, a URI helper that appends every defined entry as
  \<open>key=value\<close> without escaping, a distribution that takes the first function, and a
  projection service that knows two projections by their short codes and does not
  transform extents.
\<close>

definition exampleMatrixId :: "int \<Rightarrow> jsval" where
  "exampleMatrixId z = Str (showInt z)"

definition plainAppendParams :: "string \<Rightarrow> obj \<Rightarrow> string" where
  "plainAppendParams uri params =
     (let qs = join ''&'' (map (\<lambda>p. fst p @ ''='' @ toStr (snd p))
                 (filter (\<lambda>p. snd p \<noteq> Undefined) (forIn params)));
          uri = (if uri \<noteq> [] \<and> (last uri = CHR ''?'' \<or> last uri = CHR ''&'')
                 then butlast uri else uri);
          uri = (if CHR ''?'' \<notin> set uri then uri @ ''?'' else uri @ ''&'')
      in uri @ qs)"

definition firstTileUrlFunction :: "'p tileUrlFunction list \<Rightarrow> 'p tileUrlFunction" where
  "firstTileUrlFunction fs = (case fs of [] \<Rightarrow> nullTileUrlFunction | f # _ \<Rightarrow> f)"

definition exampleHelpers :: "unit helpers" where
  "exampleHelpers =
     \<lparr> appendParams = plainAppendParams, expandUrl = (\<lambda>u. [u]),
       createFromTileUrlFunctions = firstTileUrlFunction \<rparr>"

definition exampleOptions :: wmtsOptions where
  "exampleOptions =
     \<lparr> opt_version = None, opt_format = Some ''image/png'', opt_dimensions = None,
       opt_layer = ''roads'', opt_matrixSet = ''GoogleMapsCompatible'', opt_style = ''default'',
       opt_urls = None, opt_url = Some ''http://host/wmts'', opt_requestEncoding = None,
       opt_tileGrid = Some exampleMatrixId \<rparr>"

definition exampleGetProjection :: "string \<Rightarrow> string option" where
  "exampleGetProjection code =
     (if code = ''EPSG:4326'' \<or> code = ''EPSG:3857'' then Some code else None)"

definition exampleGetExtent :: "string \<Rightarrow> extent option" where
  "exampleGetExtent p =
     (if p = ''EPSG:4326'' then Some (- 180, - 90, 180, 90)
      else if p = ''EPSG:3857'' then Some (- 20037508, - 20037508, 20037508, 20037508)
      else None)"

definition exampleContainsExtent :: "extent \<Rightarrow> extent \<Rightarrow> bool" where
  "exampleContainsExtent e1 e2 =
     (case e1 of (a0, a1, a2, a3) \<Rightarrow> case e2 of (b0, b1, b2, b3) \<Rightarrow>
        a0 \<le> b0 \<and> b2 \<le> a2 \<and> a1 \<le> b1 \<and> b3 \<le> a3)"

definition exampleServices :: "(string, string \<times> extent option, unit) services" where
  "exampleServices =
     \<lparr> getProjection = exampleGetProjection,
       equivalent = (=),
       getExtent = exampleGetExtent,
       transformExtent = (\<lambda>e source destination. e),
       containsExtent = exampleContainsExtent,
       createFromCapabilitiesMatrixSet = (\<lambda>m e limits. (tms_Identifier m, e)) \<rparr>"

text \<open>A document with one layer that links two matrix sets, and a configuration that
  names the layer and nothing else.\<close>

definition exampleLayer :: "unit layer" where
  "exampleLayer =
     \<lparr> layer_Identifier = ''roads'',
       layer_TileMatrixSetLink =
         [\<lparr> link_TileMatrixSet = ''WGS84'', link_TileMatrixSetLimits = None \<rparr>,
          \<lparr> link_TileMatrixSet = ''WebMercator'', link_TileMatrixSetLimits = None \<rparr>],
       layer_Format = [''image/png''],
       layer_Style =
         [\<lparr> style_Identifier = ''default'', style_Title = Some ''Default'',
            style_isDefault = True \<rparr>],
       layer_Dimension = None,
       layer_ResourceURL =
         Some [\<lparr> res_resourceType = ''tile'', res_format = ''image/png'',
                 res_template = ''http://host/{TileMatrix}/{TileRow}/{TileCol}.png'' \<rparr>],
       layer_WGS84BoundingBox = Some (- 180, - 85, 180, 85) \<rparr>"

definition exampleCapabilities :: "unit capabilities" where
  "exampleCapabilities =
     \<lparr> cap_Layer = [exampleLayer],
       cap_TileMatrixSet =
         [\<lparr> tms_Identifier = ''WGS84'',
            tms_SupportedCRS = Some ''urn:ogc:def:crs:EPSG::4326'' \<rparr>,
          \<lparr> tms_Identifier = ''WebMercator'',
            tms_SupportedCRS = Some ''urn:ogc:def:crs:EPSG::3857'' \<rparr>],
       cap_GetTile =
         Some [\<lparr> get_Constraint =
                   Some [\<lparr> con_name = ''GetEncoding'', con_AllowedValues = [''KVP''] \<rparr>],
                 get_href = ''http://host/wmts?'' \<rparr>] \<rparr>"

definition exampleConfig :: config where
  "exampleConfig =
     \<lparr> cfg_layer = ''roads'', cfg_matrixSet = None, cfg_projection = None,
       cfg_requestEncoding = None, cfg_style = None, cfg_format = None,
       cfg_crossOrigin = None \<rparr>"

section \<open>Objects: lookup, keys and enumeration\<close>

declare showNat.simps [simp del]



lemma set_forIn: "set (forIn ob) = set ob"
  by (auto simp: forIn_def)





lemma distinct_forIn: "distinct (map fst ob) \<Longrightarrow> distinct (map fst (forIn ob))"
  by (auto simp: distinct_map set_forIn) (auto simp: forIn_def)

lemma map_of_forIn: "distinct (map fst ob) \<Longrightarrow> map_of (forIn ob) = map_of ob"
  by (simp add: map_of_inject_set distinct_forIn set_forIn)

lemma keys_setProp: "fst ` set (setProp k v ob) = insert k (fst ` set ob)"
  by (induction ob) auto

lemma map_of_setProp: "map_of (setProp k v ob) = (map_of ob)(k \<mapsto> v)"
  by (induction ob) auto

lemma map_of_foldl_setProp:
  "distinct (map fst es) \<Longrightarrow>
   map_of (foldl (\<lambda>t p. setProp (fst p) (snd p) t) t es) = map_of t ++ map_of es"
proof (induction es arbitrary: t)
  case Nil
  then show ?case by simp
next
  case (Cons e es)
  then have "fst e \<notin> dom (map_of es)"
    by (simp add: dom_map_of_conv_image_fst)
  with Cons show ?case
    by (auto simp: map_of_setProp map_add_def fun_eq_iff split: option.splits)
qed

lemma keys_foldl_setProp:
  "fst ` set (foldl (\<lambda>t p. setProp (fst p) (snd p) t) t es) = fst ` set t \<union> fst ` set es"
  by (induction es arbitrary: t) (auto simp: keys_setProp)

lemma keys_assign: "fst ` set (assign target source) = fst ` set target \<union> fst ` set source"
  by (simp add: assign_def keys_foldl_setProp set_forIn)

lemma map_of_assign:
  "distinct (map fst source) \<Longrightarrow>
   map_of (assign target source) = map_of target ++ map_of source"
  by (simp add: assign_def map_of_foldl_setProp distinct_forIn map_of_forIn)

text \<open>Inherited properties are seen by the substitutions: at compile time
  \<open>'constructor' in context\<close> holds, and per call \<open>localContext['toString']\<close> is a
  built-in function.\<close>

lemma inherited_properties_substituted:
  "compileTemplate exampleHelpers REST [(''layer'', Str ''roads'')] ''{constructor}/{toString}''
     = ''function Object() { [native code] }/{toString}'' \<and>
   createFromWMTSTemplate exampleHelpers REST [(''layer'', Str ''roads'')] (Some exampleMatrixId)
       ''{constructor}/{toString}'' [] (Some (2, 5, 3)) 1 ()
     = Inr (Some (''function Object() { [native code] }/'' @
                  ''function toString() { [native code] }''))"
  by code_simp

section \<open>Strings: query parameters and placeholders\<close>
















section \<open>The compiled addressing function\<close>




text \<open>
  C4: the claim is that a placeholder of a REST template that matches no key of the static
  or of the per-call context stays in the URL. The compile-time substitution leaves it in
  place; the per-call substitution replaces every remaining placeholder by the string of
  \<open>localContext[p]\<close>, which for an unknown name is \<open>undefined\<close>. Here \<open>{Foo}\<close>
  becomes \<open>undefined\<close>.
\<close>

theorem unmatched_placeholder_becomes_undefined:
  "compileTemplate exampleHelpers REST
       (staticContext REST ''roads'' ''default'' ''GoogleMapsCompatible'' ''1.0.0'' ''image/png'')
       ''http://host/{Layer}/{Foo}/{TileMatrix}/{TileRow}/{TileCol}.png''
     = ''http://host/roads/{Foo}/{TileMatrix}/{TileRow}/{TileCol}.png'' \<and>
   createFromWMTSTemplate exampleHelpers REST
       (staticContext REST ''roads'' ''default'' ''GoogleMapsCompatible'' ''1.0.0'' ''image/png'')
       (Some exampleMatrixId) ''http://host/{Layer}/{Foo}/{TileMatrix}/{TileRow}/{TileCol}.png''
       [] (Some (2, 5, 3)) 1 ()
     = Inr (Some ''http://host/roads/undefined/2/-4/5.png'')"
  by code_simp

text \<open>
  C5, as stated, fails: the compiled function can raise. The constructor takes
  \<open>options.tileGrid\<close> unchecked, and for a present coordinate the function calls
  \<open>tileGrid.getMatrixId\<close> first: the source constructed from options without a tile grid
  throws on the tile \<open>(2, 5, 3)\<close>.
\<close>

theorem present_coordinate_without_tile_grid_throws:
  "tileUrl (WMTS exampleHelpers (exampleOptions\<lparr>opt_tileGrid := None\<rparr>)) (Some (2, 5, 3)) 1 ()
     = Inl TypeError"
  by code_simp

text \<open>
  C5, amended: for every template, encoding, static context, dimensions, pixel ratio and
  projection, the compiled function returns no URL for an absent tile coordinate, and does
  not raise, with or without a tile grid. For a present coordinate it returns a URL, and
  does not raise, when the source has a tile grid; without one it raises a
  \<open>TypeError\<close>.
\<close>

theorem absent_coordinate_gives_no_url:
  "createFromWMTSTemplate h requestEncoding context tileGrid template dimensions None
       pixelRatio projection = Inr None \<and>
   (tileGrid \<noteq> None \<longrightarrow>
      (\<exists>url. createFromWMTSTemplate h requestEncoding context tileGrid template dimensions
         (Some tileCoord) pixelRatio projection = Inr (Some url))) \<and>
   (tileGrid = None \<longrightarrow>
      createFromWMTSTemplate h requestEncoding context tileGrid template dimensions
         (Some tileCoord) pixelRatio projection = Inl TypeError)"
  by (cases tileGrid) (simp_all add: createFromWMTSTemplate_def Let_def)

theorem absent_coordinate_gives_no_url_witness:
  "createFromWMTSTemplate exampleHelpers REST [(''layer'', Str ''roads'')] (Some exampleMatrixId)
       ''http://host/{Layer}/{TileMatrix}/{TileRow}/{TileCol}.png'' [] None 2 () = Inr None \<and>
   createFromWMTSTemplate exampleHelpers KVP [(''layer'', Str ''roads'')] None
       ''http://host/wmts'' [] None 1 () = Inr None \<and>
   createFromWMTSTemplate exampleHelpers REST [(''layer'', Str ''roads'')] (Some exampleMatrixId)
       ''http://host/{Layer}/{TileMatrix}/{TileRow}/{TileCol}.png'' [] (Some (2, 5, 3)) 2 ()
     = Inr (Some ''http://host/roads/2/-4/5.png'') \<and>
   createFromWMTSTemplate exampleHelpers KVP [(''layer'', Str ''roads'')] None
       ''http://host/wmts'' [] (Some (2, 5, 3)) 1 () = Inl TypeError"
proof -
  have e: "createFromWMTSTemplate exampleHelpers REST [(''layer'', Str ''roads'')]
       (Some exampleMatrixId) ''http://host/{Layer}/{TileMatrix}/{TileRow}/{TileCol}.png'' []
       (Some (2, 5, 3)) 2 ()
     = Inr (Some ''http://host/roads/2/-4/5.png'')"
    by code_simp
  from absent_coordinate_gives_no_url [of exampleHelpers REST "[(''layer'', Str ''roads'')]"
      "Some exampleMatrixId" "''http://host/{Layer}/{TileMatrix}/{TileRow}/{TileCol}.png''" "[]"
      2 "()" "(2, 5, 3)"]
    absent_coordinate_gives_no_url [of exampleHelpers KVP "[(''layer'', Str ''roads'')]"
      None "''http://host/wmts''" "[]" 1 "()" "(2, 5, 3)"] e
  show ?thesis
    by simp
qed

text \<open>
  C10: a source constructed with neither \<open>url\<close> nor \<open>urls\<close> has the null function as
  its tile URL function, and a request for any tile coordinate, absent or not, pixel ratio
  and projection yields no URL.
\<close>

theorem source_without_urls_has_null_function:
  "wmts_tileUrlFunction (WMTS h (options\<lparr>opt_urls := None, opt_url := None\<rparr>))
     = nullTileUrlFunction \<and>
   tileUrl (WMTS h (options\<lparr>opt_urls := None, opt_url := None\<rparr>)) tileCoord pixelRatio
     projection = Inr None"
  by (simp add: tileUrl_def WMTS_def Let_def setKey_def nullTileUrlFunction_def)

theorem source_without_urls_has_null_function_witness:
  "tileUrl (WMTS exampleHelpers (exampleOptions\<lparr>opt_urls := None, opt_url := None\<rparr>))
     (Some (2, 5, 3)) 1 () = Inr None \<and>
   tileUrl (WMTS exampleHelpers (exampleOptions\<lparr>opt_urls := None, opt_url := None\<rparr>))
     None 1 () = Inr None"
  using source_without_urls_has_null_function [of exampleHelpers exampleOptions "Some (2, 5, 3)" 1 "()"]
    source_without_urls_has_null_function [of exampleHelpers exampleOptions None 1 "()"]
  by simp

section \<open>Dimensions and the key\<close>

text \<open>
  C9: \<open>updateDimensions\<close> merges the patch into the dimensions: for a patch that is a
  well-formed object (each key once) the new mapping is the old one overridden by the
  patch, and no key is removed; the published key is recomputed from the new dimensions, as
  the entries \<open>name-value\<close> joined by \<open>/\<close>. Starting without dimensions, the updates
  \<open>{time: "2020"}\<close> and then \<open>{time: "2021", elevation: "100"}\<close> give the mapping
  \<open>{time: "2021", elevation: "100"}\<close>, the key \<open>time-2021/elevation-100\<close> with both
  entries, and two keys that differ.
\<close>

theorem updateDimensions_merges_and_publishes_key:
  "(distinct (map fst dimensions) \<longrightarrow>
      map_of (wmts_dimensions (updateDimensions dimensions this))
        = map_of (wmts_dimensions this) ++ map_of dimensions) \<and>
   fst ` set (wmts_dimensions this)
     \<subseteq> fst ` set (wmts_dimensions (updateDimensions dimensions this)) \<and>
   wmts_key (updateDimensions dimensions this)
     = join ''/'' (map (\<lambda>p. fst p @ ''-'' @ toStr (snd p))
         (forIn (wmts_dimensions (updateDimensions dimensions this)))) \<and>
   (wmts_dimensions this = [] \<longrightarrow>
     (let s1 = updateDimensions [(''time'', Str ''2020'')] this;
          s2 = updateDimensions [(''time'', Str ''2021''), (''elevation'', Str ''100'')] s1
      in wmts_dimensions s2 = [(''time'', Str ''2021''), (''elevation'', Str ''100'')] \<and>
         wmts_key s1 = ''time-2020'' \<and>
         wmts_key s2 = ''time-2021/elevation-100'' \<and>
         wmts_key s1 \<noteq> wmts_key s2))"
proof (intro conjI impI)
  assume "distinct (map fst dimensions)"
  then show "map_of (wmts_dimensions (updateDimensions dimensions this))
        = map_of (wmts_dimensions this) ++ map_of dimensions"
    by (simp add: updateDimensions_def setKey_def Let_def map_of_assign)
next
  show "fst ` set (wmts_dimensions this)
     \<subseteq> fst ` set (wmts_dimensions (updateDimensions dimensions this))"
    by (simp add: updateDimensions_def setKey_def Let_def keys_assign)
next
  show "wmts_key (updateDimensions dimensions this)
     = join ''/'' (map (\<lambda>p. fst p @ ''-'' @ toStr (snd p))
         (forIn (wmts_dimensions (updateDimensions dimensions this))))"
    by (simp add: updateDimensions_def setKey_def Let_def getKeyForDimensions_def)
next
  assume "wmts_dimensions this = []"
  then show "(let s1 = updateDimensions [(''time'', Str ''2020'')] this;
          s2 = updateDimensions [(''time'', Str ''2021''), (''elevation'', Str ''100'')] s1
      in wmts_dimensions s2 = [(''time'', Str ''2021''), (''elevation'', Str ''100'')] \<and>
         wmts_key s1 = ''time-2020'' \<and>
         wmts_key s2 = ''time-2021/elevation-100'' \<and>
         wmts_key s1 \<noteq> wmts_key s2)"
    by (simp add: updateDimensions_def setKey_def Let_def getKeyForDimensions_def assign_def
          forIn_def isArrayIndex_def isDigit_def)
qed

theorem updateDimensions_merges_and_publishes_key_witness:
  "distinct (map fst [(''time'', Str ''2020'')]) \<and>
   wmts_dimensions (WMTS exampleHelpers exampleOptions) = [] \<and>
   map_of (wmts_dimensions
       (updateDimensions [(''time'', Str ''2020'')] (WMTS exampleHelpers exampleOptions)))
     = [''time'' \<mapsto> Str ''2020''] \<and>
   wmts_key (updateDimensions [(''time'', Str ''2021''), (''elevation'', Str ''100'')]
       (updateDimensions [(''time'', Str ''2020'')] (WMTS exampleHelpers exampleOptions)))
     = ''time-2021/elevation-100''"
proof -
  have d: "wmts_dimensions (WMTS exampleHelpers exampleOptions) = []"
    by (simp add: WMTS_def exampleOptions_def Let_def setKey_def)
  from updateDimensions_merges_and_publishes_key [of "[(''time'', Str ''2020'')]"
      "WMTS exampleHelpers exampleOptions"] d
  show ?thesis
    by (simp add: Let_def)
qed

section \<open>The resolver: how a result is produced\<close>

lemma bindE_Inr_iff: "(bindE m f = Inr y) = (\<exists>x. m = Inr x \<and> f x = Inr y)"
  by (cases m) (simp_all add: bindE_def)

lemma propertyOf_Inr_iff: "(propertyOf v = Inr x) = (v = Some x)"
  by (cases v) (simp_all add: propertyOf_def)

lemma optionsForLayer_InrD:
  assumes "optionsForLayer sv wmtsCap config l = Inr out"
  shows "\<exists>idx link st matrixSetObj extent wrapX requestEncoding urls format.
     selectLinkIndex sv (cap_TileMatrixSet wmtsCap) l config = Inr idx \<and>
     elementAt (layer_TileMatrixSetLink l) idx = Some link \<and>
     elementAt (layer_Style l) (selectStyleIndex l config) = Some st \<and>
     find (\<lambda>elt. tms_Identifier elt = link_TileMatrixSet link) (cap_TileMatrixSet wmtsCap)
       = Some matrixSetObj \<and>
     extentAndWrapX sv l (resolveProjection sv matrixSetObj config) = Inr (extent, wrapX) \<and>
     negotiate wmtsCap l config (chooseFormat l config) = Inr (requestEncoding, urls, format) \<and>
     out = \<lparr> out_urls = urls,
           out_layer = cfg_layer config,
           out_matrixSet = link_TileMatrixSet link,
           out_format = format,
           out_projection = resolveProjection sv matrixSetObj config,
           out_requestEncoding = requestEncoding,
           out_tileGrid = createFromCapabilitiesMatrixSet sv matrixSetObj extent
                            (link_TileMatrixSetLimits link),
           out_style = style_Identifier st,
           out_dimensions = initialDimensions l,
           out_wrapX = wrapX,
           out_crossOrigin = cfg_crossOrigin config \<rparr>"
  using assms unfolding optionsForLayer_def
  by (auto simp: bindE_Inr_iff propertyOf_Inr_iff split: prod.splits)

lemma optionsFromCapabilities_SomeD:
  assumes "optionsFromCapabilities sv wmtsCap config = Inr (Some out)"
  shows "\<exists>l. find (\<lambda>elt. layer_Identifier elt = cfg_layer config) (cap_Layer wmtsCap) = Some l \<and>
     optionsForLayer sv wmtsCap config l = Inr out"
  using assms unfolding optionsFromCapabilities_def
  by (auto simp: bindE_Inr_iff split: option.splits)


lemma optionsForLayer_negotiate:
  "optionsForLayer sv wmtsCap config l = Inr out \<Longrightarrow>
   negotiate wmtsCap l config (chooseFormat l config)
     = Inr (out_requestEncoding out, out_urls out, out_format out)"
  by (drule optionsForLayer_InrD) auto

lemma optionsForLayer_projection:
  "optionsForLayer sv wmtsCap config l = Inr out \<Longrightarrow>
   \<exists>matrixSetObj.
     find (\<lambda>elt. tms_Identifier elt = out_matrixSet out) (cap_TileMatrixSet wmtsCap)
       = Some matrixSetObj \<and>
     out_projection out = resolveProjection sv matrixSetObj config"
  by (drule optionsForLayer_InrD) auto

lemma optionsForLayer_wrapX:
  "optionsForLayer sv wmtsCap config l = Inr out \<Longrightarrow>
   \<exists>extent projection. extentAndWrapX sv l projection = Inr (extent, out_wrapX out)"
  by (drule optionsForLayer_InrD) fastforce

subsection \<open>The scan of the bindings\<close>

lemma scanGetTile_KVP:
  "scanGetTile gets (Some KVP, acc) = Inr (enc, urls) \<Longrightarrow>
   enc = Some KVP \<and> urls = acc @ map get_href (filter bindingAllowsKVP gets)"
proof (induction gets arbitrary: acc)
  case Nil
  then show ?case by simp
next
  case (Cons g gets)
  show ?case
  proof (cases "get_Constraint g")
    case None
    with Cons.prems Cons.IH [of "acc @ [get_href g]"] Cons.IH [of acc] show ?thesis
      by (auto simp: bindingAllowsKVP_def split: if_splits)
  next
    case (Some constraints)
    with Cons.prems Cons.IH [of "acc @ [get_href g]"] Cons.IH [of acc] show ?thesis
      by (auto simp: bindingAllowsKVP_def includes_arr_def KVP_def
            split: if_splits option.splits)
  qed
qed

lemma scanGetTile_other:
  assumes "scanGetTile gets (Some e, []) = Inr (enc, urls)"
    and "e \<noteq> KVP" and "e \<noteq> []" and "\<forall>g \<in> set gets. get_Constraint g \<noteq> None"
  shows "enc = Some e \<and> urls = []"
  using assms by (cases gets) (auto split: option.splits if_splits)

lemma negotiate_InrD:
  assumes "negotiate wmtsCap l config format = Inr (requestEncoding, urls, format')"
  shows "\<exists>enc us.
     scanGetTile (getTileBindings wmtsCap)
       (case cfg_requestEncoding config of Some e \<Rightarrow> Some e | None \<Rightarrow> Some [], [])
       = Inr (enc, us) \<and>
     (if us = [] then requestEncoding = Some REST \<and> urls = tileTemplates l
      else requestEncoding = enc \<and> urls = us)"
proof (cases "cap_GetTile wmtsCap")
  case None
  with assms show ?thesis
    by (auto simp: negotiate_def getTileBindings_def tileTemplates_def bindE_def Let_def
          split: option.splits)
next
  case (Some gets)
  with assms show ?thesis
    by (auto simp: negotiate_def getTileBindings_def tileTemplates_def bindE_Inr_iff Let_def
          split: option.splits if_splits)
qed

section \<open>Matrix set selection\<close>

text \<open>A layer with at most one link selects the index 0 whatever the configuration; a
  configuration without projection selects the first link whose matrix set is
  \<open>config.matrixSet\<close>, and the first link when there is none.\<close>

lemma selectLinkIndex_single_link:
  "length (layer_TileMatrixSetLink l) \<le> 1 \<Longrightarrow>
   selectLinkIndex sv tileMatrixSets l config = Inr 0"
  by (simp add: selectLinkIndex_def bindE_def)

lemma selectLinkIndex_by_matrixSet:
  "cfg_projection config = None \<Longrightarrow>
   selectLinkIndex sv tileMatrixSets l config =
     Inr (let i = findIndex (\<lambda>elt. Some (link_TileMatrixSet elt) = cfg_matrixSet config)
                    (layer_TileMatrixSetLink l)
          in if 1 < length (layer_TileMatrixSetLink l) \<and> 0 \<le> i then i else 0)"
  by (auto simp: selectLinkIndex_def bindE_def Let_def)

text \<open>
  C1: the claim is that with several links a link whose matrix set is \<open>config.matrixSet\<close>
  is preferred to a match by projection. The source tests \<open>'projection' in config\<close>
  first and then searches by projection only, so the matrix set hint is not read. The
  layer links \<open>WGS84\<close> (EPSG:4326) and \<open>WebMercator\<close> (EPSG:3857): with the hint
  \<open>WebMercator\<close> alone that link is selected, and with the projection \<open>EPSG:4326\<close>
  added the selected matrix set is \<open>WGS84\<close>.
\<close>

theorem matrixSet_hint_unread_when_projection_given:
  "optionsFromCapabilities exampleServices exampleCapabilities
       (exampleConfig\<lparr>cfg_matrixSet := Some ''WebMercator''\<rparr>)
     = Inr (Some
         \<lparr> out_urls = [''http://host/wmts?''], out_layer = ''roads'',
           out_matrixSet = ''WebMercator'', out_format = Some ''image/png'',
           out_projection = Some ''EPSG:3857'', out_requestEncoding = Some ''KVP'',
           out_tileGrid = (''WebMercator'', Some (- 180, - 85, 180, 85)),
           out_style = ''default'', out_dimensions = [], out_wrapX = Some True,
           out_crossOrigin = None \<rparr>) \<and>
   optionsFromCapabilities exampleServices exampleCapabilities
       (exampleConfig\<lparr>cfg_matrixSet := Some ''WebMercator'',
          cfg_projection := Some ''EPSG:4326''\<rparr>)
     = Inr (Some
         \<lparr> out_urls = [''http://host/wmts?''], out_layer = ''roads'',
           out_matrixSet = ''WGS84'', out_format = Some ''image/png'',
           out_projection = Some ''EPSG:4326'', out_requestEncoding = Some ''KVP'',
           out_tileGrid = (''WGS84'', Some (- 180, - 85, 180, 85)),
           out_style = ''default'', out_dimensions = [], out_wrapX = Some True,
           out_crossOrigin = None \<rparr>)"
  by code_simp

section \<open>Request encoding and URLs\<close>

text \<open>
  C2, as stated, fails: with the encoding \<open>KVP\<close> supplied and a document without
  \<open>GetTile\<close> bindings no URL is collected, and the result has the encoding \<open>REST\<close>
  and the resource URL templates of the layer.
\<close>

theorem supplied_encoding_not_kept:
  "optionsFromCapabilities exampleServices (exampleCapabilities\<lparr>cap_GetTile := None\<rparr>)
       (exampleConfig\<lparr>cfg_requestEncoding := Some ''KVP''\<rparr>)
     = Inr (Some
         \<lparr> out_urls = [''http://host/{TileMatrix}/{TileRow}/{TileCol}.png''],
           out_layer = ''roads'', out_matrixSet = ''WGS84'', out_format = Some ''image/png'',
           out_projection = Some ''EPSG:4326'', out_requestEncoding = Some ''REST'',
           out_tileGrid = (''WGS84'', Some (- 180, - 85, 180, 85)),
           out_style = ''default'', out_dimensions = [], out_wrapX = Some True,
           out_crossOrigin = None \<rparr>)"
  by code_simp

text \<open>
  C2, amended. Let the resolver return options for a configuration that supplies the
  request encoding. If it is \<open>KVP\<close>, the URLs collected from the bindings are, in the
  order of the document, those of the bindings whose \<open>GetEncoding\<close> constraint allows
  KVP and of the bindings without constraint that have an \<open>href\<close>; when there is one, the
  result has these URLs and the encoding \<open>KVP\<close>, and when there is none it has the
  encoding \<open>REST\<close> and the tile templates of the layer. If it is another encoding and
  every binding declares a constraint, no URL is collected from the bindings, and the result
  has the encoding \<open>REST\<close> and the tile templates of the layer.
\<close>

theorem supplied_encoding_urls:
  assumes "optionsFromCapabilities sv wmtsCap config = Inr (Some out)"
    and "find (\<lambda>elt. layer_Identifier elt = cfg_layer config) (cap_Layer wmtsCap) = Some l"
    and "cfg_requestEncoding config = Some e"
  shows "(e = KVP \<longrightarrow>
           (if filter bindingAllowsKVP (getTileBindings wmtsCap) \<noteq> []
            then out_requestEncoding out = Some KVP \<and>
                 out_urls out = map get_href (filter bindingAllowsKVP (getTileBindings wmtsCap))
            else out_requestEncoding out = Some REST \<and> out_urls out = tileTemplates l)) \<and>
         (e \<noteq> KVP \<and> e \<noteq> [] \<and>
          (\<forall>g \<in> set (getTileBindings wmtsCap). get_Constraint g \<noteq> None) \<longrightarrow>
           out_requestEncoding out = Some REST \<and> out_urls out = tileTemplates l)"
proof -
  from assms(1,2) have "optionsForLayer sv wmtsCap config l = Inr out"
    by (auto dest: optionsFromCapabilities_SomeD)
  then have "negotiate wmtsCap l config (chooseFormat l config)
      = Inr (out_requestEncoding out, out_urls out, out_format out)"
    by (rule optionsForLayer_negotiate)
  from negotiate_InrD [OF this] assms(3) obtain enc us
    where s: "scanGetTile (getTileBindings wmtsCap) (Some e, []) = Inr (enc, us)"
      and f: "if us = [] then out_requestEncoding out = Some REST \<and> out_urls out = tileTemplates l
              else out_requestEncoding out = enc \<and> out_urls out = us"
    by auto
  show ?thesis
  proof (rule conjI; rule impI)
    assume "e = KVP"
    with s have "enc = Some KVP \<and>
        us = map get_href (filter bindingAllowsKVP (getTileBindings wmtsCap))"
      using scanGetTile_KVP [of "getTileBindings wmtsCap" "[]" enc us] by simp
    with f show "if filter bindingAllowsKVP (getTileBindings wmtsCap) \<noteq> []
            then out_requestEncoding out = Some KVP \<and>
                 out_urls out = map get_href (filter bindingAllowsKVP (getTileBindings wmtsCap))
            else out_requestEncoding out = Some REST \<and> out_urls out = tileTemplates l"
      by (auto split: if_splits)
  next
    assume "e \<noteq> KVP \<and> e \<noteq> [] \<and>
        (\<forall>g \<in> set (getTileBindings wmtsCap). get_Constraint g \<noteq> None)"
    with s have "us = []"
      using scanGetTile_other [of "getTileBindings wmtsCap" e enc us] by simp
    with f show "out_requestEncoding out = Some REST \<and> out_urls out = tileTemplates l"
      by simp
  qed
qed

theorem supplied_encoding_urls_witness:
  "optionsFromCapabilities exampleServices exampleCapabilities
       (exampleConfig\<lparr>cfg_requestEncoding := Some ''KVP''\<rparr>)
     = Inr (Some
         \<lparr> out_urls = [''http://host/wmts?''], out_layer = ''roads'',
           out_matrixSet = ''WGS84'', out_format = Some ''image/png'',
           out_projection = Some ''EPSG:4326'', out_requestEncoding = Some ''KVP'',
           out_tileGrid = (''WGS84'', Some (- 180, - 85, 180, 85)),
           out_style = ''default'', out_dimensions = [], out_wrapX = Some True,
           out_crossOrigin = None \<rparr>) \<and>
   find (\<lambda>elt. layer_Identifier elt = ''roads'') (cap_Layer exampleCapabilities)
     = Some exampleLayer \<and>
   map get_href (filter bindingAllowsKVP (getTileBindings exampleCapabilities))
     = [''http://host/wmts?''] \<and>
   list_all (\<lambda>g. get_Constraint g \<noteq> None) (getTileBindings exampleCapabilities) \<and>
   optionsFromCapabilities exampleServices exampleCapabilities
       (exampleConfig\<lparr>cfg_requestEncoding := Some ''REST''\<rparr>)
     = Inr (Some
         \<lparr> out_urls = tileTemplates exampleLayer, out_layer = ''roads'',
           out_matrixSet = ''WGS84'', out_format = Some ''image/png'',
           out_projection = Some ''EPSG:4326'', out_requestEncoding = Some REST,
           out_tileGrid = (''WGS84'', Some (- 180, - 85, 180, 85)),
           out_style = ''default'', out_dimensions = [], out_wrapX = Some True,
           out_crossOrigin = None \<rparr>)"
proof -
  let ?kvp = "exampleConfig\<lparr>cfg_requestEncoding := Some ''KVP''\<rparr>"
  let ?rest = "exampleConfig\<lparr>cfg_requestEncoding := Some ''REST''\<rparr>"
  let ?outK = "\<lparr> out_urls = [''http://host/wmts?''], out_layer = ''roads'',
           out_matrixSet = ''WGS84'', out_format = Some ''image/png'',
           out_projection = Some ''EPSG:4326'', out_requestEncoding = Some ''KVP'',
           out_tileGrid = (''WGS84'', Some (- 180 :: real, - 85 :: real, 180 :: real, 85 :: real)),
           out_style = ''default'', out_dimensions = [], out_wrapX = Some True,
           out_crossOrigin = None \<rparr>"
  let ?outR = "\<lparr> out_urls = [''http://host/{TileMatrix}/{TileRow}/{TileCol}.png''],
           out_layer = ''roads'',
           out_matrixSet = ''WGS84'', out_format = Some ''image/png'',
           out_projection = Some ''EPSG:4326'', out_requestEncoding = Some ''REST'',
           out_tileGrid = (''WGS84'', Some (- 180 :: real, - 85 :: real, 180 :: real, 85 :: real)),
           out_style = ''default'', out_dimensions = [], out_wrapX = Some True,
           out_crossOrigin = None \<rparr>"
  have a: "optionsFromCapabilities exampleServices exampleCapabilities ?kvp = Inr (Some ?outK)"
    by code_simp
  have a': "optionsFromCapabilities exampleServices exampleCapabilities ?rest = Inr (Some ?outR)"
    by code_simp
  have b: "find (\<lambda>elt. layer_Identifier elt = cfg_layer ?kvp) (cap_Layer exampleCapabilities)
      = Some exampleLayer"
    by code_simp
  have b': "find (\<lambda>elt. layer_Identifier elt = cfg_layer ?rest) (cap_Layer exampleCapabilities)
      = Some exampleLayer"
    by code_simp
  have c: "cfg_requestEncoding ?kvp = Some ''KVP''" and c': "cfg_requestEncoding ?rest = Some ''REST''"
    by simp_all
  have d: "filter bindingAllowsKVP (getTileBindings exampleCapabilities) \<noteq> []"
    by code_simp
  have e: "list_all (\<lambda>g. get_Constraint g \<noteq> None) (getTileBindings exampleCapabilities)"
    by code_simp
  have r: "''REST'' \<noteq> KVP \<and> ''REST'' \<noteq> []"
    by (simp add: KVP_def)
  from supplied_encoding_urls [OF a b c] d have k: "out_urls ?outK
      = map get_href (filter bindingAllowsKVP (getTileBindings exampleCapabilities))"
    by (simp add: KVP_def)
  from supplied_encoding_urls [OF a' b' c'] e r
  have "out_requestEncoding ?outR = Some REST \<and> out_urls ?outR = tileTemplates exampleLayer"
    by (simp add: list_all_iff)
  with a a' b e k show ?thesis
    by (simp add: exampleConfig_def)
qed

section \<open>Projection and wrap-around flag\<close>

text \<open>
  C7: when the resolver returns options, the selected matrix set is in the document, and
  the resolved projection is the configured one if \<open>config.projection\<close> is supplied and
  either no projection is derived from the code of the matrix set or the configured
  projection is equivalent to the derived one; in every other case it is the derived
  projection. The configured projection is what the projection service knows under
  \<open>config.projection\<close>.
\<close>

theorem resolved_projection_rule:
  assumes "optionsFromCapabilities sv wmtsCap config = Inr (Some out)"
  shows "\<exists>matrixSetObj.
           find (\<lambda>elt. tms_Identifier elt = out_matrixSet out) (cap_TileMatrixSet wmtsCap)
             = Some matrixSetObj \<and>
           out_projection out =
             (let derived = derivedProjection sv matrixSetObj;
                  configured = (case cfg_projection config of
                                  None \<Rightarrow> None
                                | Some c \<Rightarrow> getProjection sv c)
              in if cfg_projection config \<noteq> None \<and>
                    (derived = None \<or>
                     (case configured of
                        None \<Rightarrow> False
                      | Some c \<Rightarrow>
                          (case derived of None \<Rightarrow> False | Some d \<Rightarrow> equivalent sv c d)))
                 then configured else derived)"
proof -
  from assms obtain l where "optionsForLayer sv wmtsCap config l = Inr out"
    by (auto dest: optionsFromCapabilities_SomeD)
  from optionsForLayer_projection [OF this] obtain matrixSetObj
    where m: "find (\<lambda>elt. tms_Identifier elt = out_matrixSet out) (cap_TileMatrixSet wmtsCap)
                = Some matrixSetObj"
      and o: "out_projection out = resolveProjection sv matrixSetObj config"
    by blast
  show ?thesis
    using m o by (auto simp: resolveProjection_def Let_def split: option.splits)
qed

text \<open>The witness: a layer with the single matrix set \<open>WGS84\<close> and the configured
  projection \<open>EPSG:3857\<close>, which is not equivalent to the derived \<open>EPSG:4326\<close>: the
  derived projection is retained.\<close>

theorem resolved_projection_rule_witness:
  "optionsFromCapabilities exampleServices
       (exampleCapabilities\<lparr>cap_Layer :=
          [exampleLayer\<lparr>layer_TileMatrixSetLink :=
             [\<lparr> link_TileMatrixSet = ''WGS84'', link_TileMatrixSetLimits = None \<rparr>]\<rparr>]\<rparr>)
       (exampleConfig\<lparr>cfg_projection := Some ''EPSG:3857''\<rparr>)
     = Inr (Some
         \<lparr> out_urls = [''http://host/wmts?''], out_layer = ''roads'',
           out_matrixSet = ''WGS84'', out_format = Some ''image/png'',
           out_projection = Some ''EPSG:4326'', out_requestEncoding = Some ''KVP'',
           out_tileGrid = (''WGS84'', Some (- 180, - 85, 180, 85)),
           out_style = ''default'', out_dimensions = [], out_wrapX = Some True,
           out_crossOrigin = None \<rparr>) \<and>
   derivedProjection exampleServices
       \<lparr> tms_Identifier = ''WGS84'', tms_SupportedCRS = Some ''urn:ogc:def:crs:EPSG::4326'' \<rparr>
     = Some ''EPSG:4326''"
proof -
  let ?cap = "exampleCapabilities\<lparr>cap_Layer :=
          [exampleLayer\<lparr>layer_TileMatrixSetLink :=
             [\<lparr> link_TileMatrixSet = ''WGS84'', link_TileMatrixSetLimits = None \<rparr>]\<rparr>]\<rparr>"
  let ?config = "exampleConfig\<lparr>cfg_projection := Some ''EPSG:3857''\<rparr>"
  let ?out = "\<lparr> out_urls = [''http://host/wmts?''], out_layer = ''roads'',
           out_matrixSet = ''WGS84'', out_format = Some ''image/png'',
           out_projection = Some ''EPSG:4326'', out_requestEncoding = Some ''KVP'',
           out_tileGrid = (''WGS84'', Some (- 180, - 85, 180, 85)),
           out_style = ''default'', out_dimensions = [], out_wrapX = Some True,
           out_crossOrigin = None \<rparr>"
  let ?m = "\<lparr> tms_Identifier = ''WGS84'',
             tms_SupportedCRS = Some ''urn:ogc:def:crs:EPSG::4326'' \<rparr>"
  have a: "optionsFromCapabilities exampleServices ?cap ?config = Inr (Some ?out)"
    by code_simp
  have f: "find (\<lambda>elt. tms_Identifier elt = out_matrixSet ?out) (cap_TileMatrixSet ?cap) = Some ?m"
    by code_simp
  have d: "derivedProjection exampleServices ?m = Some ''EPSG:4326''"
    by code_simp
  from resolved_projection_rule [OF a] f d a show ?thesis
    by simp
qed

text \<open>
  C8: when the resolver returns options for a layer that declares a bounding box, the
  projection service knows \<open>EPSG:4326\<close> with an extent, and the wrap-around flag is true
  if and only if the minimum and the maximum x of the box are those of that extent; for a
  layer without bounding box the flag is absent.
\<close>

theorem wrapX_rule:
  assumes "optionsFromCapabilities sv wmtsCap config = Inr (Some out)"
    and "find (\<lambda>elt. layer_Identifier elt = cfg_layer config) (cap_Layer wmtsCap) = Some l"
  shows "case layer_WGS84BoundingBox l of
           None \<Rightarrow> out_wrapX out = None
         | Some (b0, b1, b2, b3) \<Rightarrow>
             (\<exists>wgs84 e0 e1 e2 e3.
                getProjection sv ''EPSG:4326'' = Some wgs84 \<and>
                getExtent sv wgs84 = Some (e0, e1, e2, e3) \<and>
                out_wrapX out = Some (b0 = e0 \<and> b2 = e2))"
proof -
  from assms have "optionsForLayer sv wmtsCap config l = Inr out"
    by (auto dest: optionsFromCapabilities_SomeD)
  from optionsForLayer_wrapX [OF this] obtain extent p
    where "extentAndWrapX sv l p = Inr (extent, out_wrapX out)"
    by blast
  then show ?thesis
    by (auto simp: extentAndWrapX_def Let_def split: option.splits if_splits prod.splits)
qed

text \<open>The witness: a box that spans \<open>-180\<close> to \<open>180\<close> wraps, one that starts at
  \<open>-170\<close> does not, and without box there is no flag.\<close>

theorem wrapX_rule_witness:
  "map_sum id (map_option out_wrapX)
       (optionsFromCapabilities exampleServices exampleCapabilities exampleConfig)
     = Inr (Some (Some True)) \<and>
   map_sum id (map_option out_wrapX)
       (optionsFromCapabilities exampleServices
          (exampleCapabilities\<lparr>cap_Layer :=
             [exampleLayer\<lparr>layer_WGS84BoundingBox := Some (- 170, - 85, 180, 85)\<rparr>]\<rparr>)
          exampleConfig)
     = Inr (Some (Some False)) \<and>
   map_sum id (map_option out_wrapX)
       (optionsFromCapabilities exampleServices
          (exampleCapabilities\<lparr>cap_Layer := [exampleLayer\<lparr>layer_WGS84BoundingBox := None\<rparr>]\<rparr>)
          exampleConfig)
     = Inr (Some None)"
proof -
  let ?out = "\<lparr> out_urls = [''http://host/wmts?''], out_layer = ''roads'',
           out_matrixSet = ''WGS84'', out_format = Some ''image/png'',
           out_projection = Some ''EPSG:4326'', out_requestEncoding = Some ''KVP'',
           out_tileGrid = (''WGS84'', Some (- 180, - 85, 180, 85)),
           out_style = ''default'', out_dimensions = [], out_wrapX = Some True,
           out_crossOrigin = None \<rparr>"
  have a: "optionsFromCapabilities exampleServices exampleCapabilities exampleConfig
      = Inr (Some ?out)"
    by code_simp
  have b: "find (\<lambda>elt. layer_Identifier elt = cfg_layer exampleConfig)
      (cap_Layer exampleCapabilities) = Some exampleLayer"
    by code_simp
  have c: "layer_WGS84BoundingBox exampleLayer = Some (- 180, - 85, 180, 85)"
    by (simp add: exampleLayer_def)
  have e: "getProjection exampleServices ''EPSG:4326'' = Some ''EPSG:4326''"
     "getExtent exampleServices ''EPSG:4326'' = Some (- 180, - 90, 180, 90)"
    by (simp_all add: exampleServices_def exampleGetProjection_def exampleGetExtent_def)
  from wrapX_rule [OF a b] c e have 1: "out_wrapX ?out = Some True"
    by simp
  have 2: "map_sum id (map_option out_wrapX)
       (optionsFromCapabilities exampleServices
          (exampleCapabilities\<lparr>cap_Layer :=
             [exampleLayer\<lparr>layer_WGS84BoundingBox := Some (- 170, - 85, 180, 85)\<rparr>]\<rparr>)
          exampleConfig)
     = Inr (Some (Some False))"
    by code_simp
  have 3: "map_sum id (map_option out_wrapX)
       (optionsFromCapabilities exampleServices
          (exampleCapabilities\<lparr>cap_Layer := [exampleLayer\<lparr>layer_WGS84BoundingBox := None\<rparr>]\<rparr>)
          exampleConfig)
     = Inr (Some None)"
    by code_simp
  from a 1 2 3 show ?thesis
    by simp
qed

section \<open>Layer lookup and the result of the resolver\<close>














end
